theory Spec2Isabelle
  imports Main
begin

section \<open>Python values\<close>

text \<open>
  A Python \<open>str\<close> is a sequence of Unicode code points; \<open>str\<close> turns an ASCII literal of
  this theory into one.
\<close>

type_synonym pystr = "nat list"

definition str :: "string \<Rightarrow> pystr" where
  "str s = map of_char s"

text \<open>The exceptions that the modelled code can meet.\<close>

datatype exn =
    JSONDecodeError
  | ValueError
  | TypeError
  | OverflowError
  | RecursionError
  | AttributeError
  | APIConnectionError
  | AuthenticationError
  | RateLimitError

text \<open>
  What \<open>json.loads\<close> can return. A \<open>dict\<close> keeps its keys in insertion order, each key
  once. A \<open>float\<close> is kept as the text that \<open>float()\<close> is given (a number with a fraction or
  an exponent, or one of \<open>NaN\<close>, \<open>Infinity\<close>, \<open>-Infinity\<close>): binary rounding is not
  modelled, see \<open>runtime\<close>.
\<close>

datatype json =
    JNull
  | JBool bool
  | JInt int
  | JFloat pystr
  | JStr pystr
  | JArr "json list"
  | JObj "(pystr \<times> json) list"

text \<open>
  The parts of the interpreter that the model takes as given: the conversions of a
  \<open>float\<close> to \<open>int\<close> and to \<open>bool\<close>, \<open>str()\<close> of a \<open>float\<close>, a \<open>list\<close> or a \<open>dict\<close>, the
  Unicode tables consulted for code points from 127 on, the limit on the digits of an
  integer literal (\<open>sys.get_int_max_str_digits()\<close>, 0 for none), and the number of nested
  calls that the recursion limit leaves to the decoder.
\<close>

record runtime =
  float_int :: "pystr \<Rightarrow> exn + int"
  float_truthy :: "pystr \<Rightarrow> bool"
  str_other :: "json \<Rightarrow> exn + pystr"
  uni_space :: "nat \<Rightarrow> bool"
  uni_decimal :: "nat \<Rightarrow> nat option"
  max_str_digits :: nat
  recursion_room :: nat

text \<open>
  A runtime to evaluate examples with: the digit limit that CPython ships with, room for
  1000 nested calls, and no whitespace or digit beyond ASCII. Its float conversions are placeholders; no example
  evaluated with it contains a float.
\<close>

definition ascii_runtime :: runtime where
  "ascii_runtime =
     \<lparr> float_int = (\<lambda>_. Inl OverflowError), float_truthy = (\<lambda>_. True),
       str_other = (\<lambda>_. Inr []), uni_space = (\<lambda>_. False), uni_decimal = (\<lambda>_. None),
       max_str_digits = 4300, recursion_room = 1000 \<rparr>"

subsection \<open>The integer limit\<close>

text \<open>
  \<open>PyLong_FromString\<close> refuses a decimal literal of more than 640 digits when a limit is
  set and the literal has more digits than the limit.
\<close>

definition too_many_digits :: "runtime \<Rightarrow> nat \<Rightarrow> bool" where
  "too_many_digits rt n = (640 < n \<and> 0 < max_str_digits rt \<and> max_str_digits rt < n)"

definition digits_value :: "nat list \<Rightarrow> int" where
  "digits_value ds = foldl (\<lambda>a d. 10 * a + int d) 0 ds"

subsection \<open>\<open>int(x)\<close>\<close>

datatype ichar = ISpace | IDigit nat | IUnder | IPlus | IMinus | IOther

text \<open>
  \<open>int\<close> of a \<open>str\<close> first maps every code point from 127 on to a space (Unicode
  whitespace), to an ASCII digit (Unicode decimal digit) or to an invalid character, and
  leaves the code points below 127 alone; there the whitespace is that of C.
\<close>

definition int_class :: "runtime \<Rightarrow> nat \<Rightarrow> ichar" where
  "int_class rt c =
     (if c < 127 then
        (if c = 32 \<or> (9 \<le> c \<and> c \<le> 13) then ISpace
         else if 48 \<le> c \<and> c \<le> 57 then IDigit (c - 48)
         else if c = 95 then IUnder
         else if c = 43 then IPlus
         else if c = 45 then IMinus
         else IOther)
      else if uni_space rt c then ISpace
      else (case uni_decimal rt c of None \<Rightarrow> IOther | Some d \<Rightarrow> IDigit d))"

text \<open>Digits with single underscores between them.\<close>

fun int_body :: "ichar list \<Rightarrow> nat list option" where
  "int_body [IDigit d] = Some [d]"
| "int_body (IDigit d # IUnder # cs) = map_option (Cons d) (int_body cs)"
| "int_body (IDigit d # cs) = map_option (Cons d) (int_body cs)"
| "int_body _ = None"

definition is_body_char :: "ichar \<Rightarrow> bool" where
  "is_body_char c = (case c of IDigit _ \<Rightarrow> True | IUnder \<Rightarrow> True | _ \<Rightarrow> False)"

definition int_of_str :: "runtime \<Rightarrow> pystr \<Rightarrow> exn + int" where
  "int_of_str rt s =
     (let cs = dropWhile (\<lambda>c. c = ISpace) (map (int_class rt) s);
          neg = (case cs of IMinus # _ \<Rightarrow> True | _ \<Rightarrow> False);
          cs' = (case cs of IMinus # r \<Rightarrow> r | IPlus # r \<Rightarrow> r | _ \<Rightarrow> cs)
      in case int_body (takeWhile is_body_char cs') of
           None \<Rightarrow> Inl ValueError
         | Some ds \<Rightarrow>
             if too_many_digits rt (length ds) then Inl ValueError
             else if dropWhile (\<lambda>c. c = ISpace) (dropWhile is_body_char cs') \<noteq> []
             then Inl ValueError
             else Inr (if neg then - digits_value ds else digits_value ds))"

fun py_int :: "runtime \<Rightarrow> json \<Rightarrow> exn + int" where
  "py_int rt (JInt n) = Inr n"
| "py_int rt (JBool b) = Inr (if b then 1 else 0)"
| "py_int rt (JFloat x) = float_int rt x"
| "py_int rt (JStr s) = int_of_str rt s"
| "py_int rt JNull = Inl TypeError"
| "py_int rt (JArr _) = Inl TypeError"
| "py_int rt (JObj _) = Inl TypeError"

subsection \<open>\<open>dict.get\<close>\<close>

text \<open>\<open>x.get(key, default)\<close>; only a \<open>dict\<close> has the method.\<close>

fun py_get :: "json \<Rightarrow> pystr \<Rightarrow> json \<Rightarrow> exn + json" where
  "py_get (JObj d) k dflt = Inr (case map_of d k of None \<Rightarrow> dflt | Some v \<Rightarrow> v)"
| "py_get _ k dflt = Inl AttributeError"

section \<open>\<open>json.loads\<close>\<close>

text \<open>The whitespace of JSON: space, tab, line feed, carriage return.\<close>

definition is_ws :: "nat \<Rightarrow> bool" where
  "is_ws c = (c = 32 \<or> c = 9 \<or> c = 10 \<or> c = 13)"

definition skip_ws :: "pystr \<Rightarrow> pystr" where
  "skip_ws s = dropWhile is_ws s"

text \<open>Strings, as \<open>scanstring\<close> of the C decoder reads them in strict mode.\<close>

definition hex_digit :: "nat \<Rightarrow> nat option" where
  "hex_digit c =
     (if 48 \<le> c \<and> c \<le> 57 then Some (c - 48)
      else if 97 \<le> c \<and> c \<le> 102 then Some (c - 87)
      else if 65 \<le> c \<and> c \<le> 70 then Some (c - 55)
      else None)"

fun hex4 :: "pystr \<Rightarrow> nat option" where
  "hex4 (a # b # c # d # _) =
     (case (hex_digit a, hex_digit b, hex_digit c, hex_digit d) of
        (Some x, Some y, Some z, Some w) \<Rightarrow> Some (((x * 16 + y) * 16 + z) * 16 + w)
      | _ \<Rightarrow> None)"
| "hex4 _ = None"

definition escape_char :: "nat \<Rightarrow> nat option" where
  "escape_char e =
     (if e = 34 then Some 34 else if e = 92 then Some 92 else if e = 47 then Some 47
      else if e = 98 then Some 8 else if e = 102 then Some 12 else if e = 110 then Some 10
      else if e = 114 then Some 13 else if e = 116 then Some 9 else None)"

definition push :: "nat \<Rightarrow> exn + pystr \<times> pystr \<Rightarrow> exn + pystr \<times> pystr" where
  "push x res = (case res of Inl e \<Rightarrow> Inl e | Inr (s, rest) \<Rightarrow> Inr (x # s, rest))"

text \<open>A high surrogate followed by an escaped low surrogate is one code point.\<close>

definition is_high :: "nat \<Rightarrow> bool" where
  "is_high u = (0xD800 \<le> u \<and> u \<le> 0xDBFF)"

definition is_low :: "nat \<Rightarrow> bool" where
  "is_low u = (0xDC00 \<le> u \<and> u \<le> 0xDFFF)"

definition join_surrogates :: "nat \<Rightarrow> nat \<Rightarrow> nat" where
  "join_surrogates u u2 = 0x10000 + (u - 0xD800) * 0x400 + (u2 - 0xDC00)"

text \<open>
  \<open>scanstring s\<close> reads a string whose opening quote has been consumed: it gives the decoded
  string and the text after the closing quote. A control character, an unknown escape and
  a missing closing quote are errors.
\<close>

fun scanstring :: "pystr \<Rightarrow> exn + pystr \<times> pystr" where
  "scanstring [] = Inl JSONDecodeError"
| "scanstring (c # cs) =
     (if c = 34 then Inr ([], cs)
      else if c = 92 then
        (case cs of
           [] \<Rightarrow> Inl JSONDecodeError
         | e # r \<Rightarrow>
             if e = 117 then
               (case hex4 r of
                  None \<Rightarrow> Inl JSONDecodeError
                | Some u \<Rightarrow>
                    if is_high u \<and> take 2 (drop 4 r) = [92, 117] then
                      (case hex4 (drop 6 r) of
                         None \<Rightarrow> Inl JSONDecodeError
                       | Some u2 \<Rightarrow>
                           if is_low u2 then push (join_surrogates u u2) (scanstring (drop 10 r))
                           else push u (scanstring (drop 4 r)))
                    else push u (scanstring (drop 4 r)))
             else
               (case escape_char e of
                  None \<Rightarrow> Inl JSONDecodeError
                | Some x \<Rightarrow> push x (scanstring r)))
      else if c \<le> 31 then Inl JSONDecodeError
      else push c (scanstring cs))"

text \<open>
  Numbers: \<open>(-?(?:0|[1-9][0-9]*))(\.[0-9]+)?([eE][-+]?[0-9]+)?\<close>. A number with neither
  fraction nor exponent goes to \<open>int\<close>, any other to \<open>float\<close>.
\<close>

definition is_digit :: "nat \<Rightarrow> bool" where
  "is_digit c = (48 \<le> c \<and> c \<le> 57)"

definition starts_with :: "pystr \<Rightarrow> pystr \<Rightarrow> bool" where
  "starts_with p s = (take (length p) s = p)"

definition int_part :: "pystr \<Rightarrow> pystr" where
  "int_part s =
     (case s of
        [] \<Rightarrow> []
      | d # r \<Rightarrow>
          if d = 48 then [48]
          else if 49 \<le> d \<and> d \<le> 57 then d # takeWhile is_digit r
          else [])"

definition frac_part :: "pystr \<Rightarrow> pystr" where
  "frac_part s =
     (case s of
        [] \<Rightarrow> []
      | p # r \<Rightarrow>
          if p = 46 \<and> takeWhile is_digit r \<noteq> [] then p # takeWhile is_digit r
          else [])"

definition exp_part :: "pystr \<Rightarrow> pystr" where
  "exp_part s =
     (case s of
        [] \<Rightarrow> []
      | e # r \<Rightarrow>
          if e = 101 \<or> e = 69 then
            (let sg = (if starts_with [43] r \<or> starts_with [45] r then take 1 r else []);
                 ds = takeWhile is_digit (drop (length sg) r)
             in if ds = [] then [] else e # sg @ ds)
          else [])"

definition scan_number :: "runtime \<Rightarrow> pystr \<Rightarrow> exn + json \<times> pystr" where
  "scan_number rt s =
     (let sign = (if starts_with [45] s then [45] else []);
          ip = int_part (drop (length sign) s);
          fr = frac_part (drop (length (sign @ ip)) s);
          ex = exp_part (drop (length (sign @ ip @ fr)) s);
          rest = drop (length (sign @ ip @ fr @ ex)) s
      in if ip = [] then Inl JSONDecodeError
         else if fr = [] \<and> ex = [] then
           (if too_many_digits rt (length ip) then Inl ValueError
            else Inr (JInt ((if sign = [] then 1 else - 1)
                            * digits_value (map (\<lambda>c. c - 48) ip)), rest))
         else Inr (JFloat (sign @ ip @ fr @ ex), rest))"

text \<open>The constants, tried before a number, in the order of the C scanner.\<close>

definition scan_atom :: "runtime \<Rightarrow> pystr \<Rightarrow> exn + json \<times> pystr" where
  "scan_atom rt s =
     (if starts_with (str ''null'') s then Inr (JNull, drop 4 s)
      else if starts_with (str ''true'') s then Inr (JBool True, drop 4 s)
      else if starts_with (str ''false'') s then Inr (JBool False, drop 5 s)
      else if starts_with (str ''NaN'') s then Inr (JFloat (str ''NaN''), drop 3 s)
      else if starts_with (str ''Infinity'') s then Inr (JFloat (str ''Infinity''), drop 8 s)
      else if starts_with (str ''-Infinity'') s then Inr (JFloat (str ''-Infinity''), drop 9 s)
      else scan_number rt s)"

text \<open>
  \<open>dict(pairs)\<close>: a key that comes again keeps its place and takes the later value.
\<close>

fun dict_set :: "(pystr \<times> json) list \<Rightarrow> pystr \<Rightarrow> json \<Rightarrow> (pystr \<times> json) list" where
  "dict_set [] k v = [(k, v)]"
| "dict_set ((k', v') # d) k v = (if k' = k then (k, v) # d else (k', v') # dict_set d k v)"

definition dict_of :: "(pystr \<times> json) list \<Rightarrow> (pystr \<times> json) list" where
  "dict_of ps = foldl (\<lambda>d (k, v). dict_set d k v) [] ps"

text \<open>
  The recursive descent of the decoder. \<open>scan_once\<close> reads one value at the head of the
  text; \<open>parse_pairs\<close> reads the members of an object from its first key on, up to the
  closing brace; \<open>parse_items\<close> reads the elements of an array up to the closing bracket.
  Each gives what it read and the text that follows. The number \<open>d\<close> is the room left
  for nested calls: an object and an array each take one, and with none left the decoder
  raises \<open>RecursionError\<close>.
\<close>

function scan_once :: "runtime \<Rightarrow> nat \<Rightarrow> pystr \<Rightarrow> exn + json \<times> pystr"
  and parse_pairs :: "runtime \<Rightarrow> nat \<Rightarrow> pystr \<Rightarrow> exn + (pystr \<times> json) list \<times> pystr"
  and parse_items :: "runtime \<Rightarrow> nat \<Rightarrow> pystr \<Rightarrow> exn + json list \<times> pystr"
where
  "scan_once rt d [] = Inl JSONDecodeError"
| "scan_once rt d (c # cs) =
     (if c = 34 then
        (case scanstring cs of Inl e \<Rightarrow> Inl e | Inr (x, r) \<Rightarrow> Inr (JStr x, r))
      else if c = 123 then
        (if d = 0 then Inl RecursionError
         else if starts_with [125] (skip_ws cs) then Inr (JObj [], drop 1 (skip_ws cs))
         else (case parse_pairs rt (d - 1) (skip_ws cs) of
                 Inl e \<Rightarrow> Inl e
               | Inr (ps, r) \<Rightarrow> Inr (JObj (dict_of ps), r)))
      else if c = 91 then
        (if d = 0 then Inl RecursionError
         else if starts_with [93] (skip_ws cs) then Inr (JArr [], drop 1 (skip_ws cs))
         else (case parse_items rt (d - 1) (skip_ws cs) of
                 Inl e \<Rightarrow> Inl e
               | Inr (vs, r) \<Rightarrow> Inr (JArr vs, r)))
      else scan_atom rt (c # cs))"
| "parse_pairs rt d s =
     (if \<not> starts_with [34] s then Inl JSONDecodeError
      else
        (case scanstring (drop 1 s) of
           Inl e \<Rightarrow> Inl e
         | Inr (key, s1) \<Rightarrow>
             (if \<not> starts_with [58] (skip_ws s1) then Inl JSONDecodeError
              else
                (case scan_once rt d (skip_ws (drop 1 (skip_ws s1))) of
                   Inl e \<Rightarrow> Inl e
                 | Inr (v, s3) \<Rightarrow>
                     (if starts_with [125] (skip_ws s3)
                      then Inr ([(key, v)], drop 1 (skip_ws s3))
                      else if \<not> starts_with [44] (skip_ws s3) then Inl JSONDecodeError
                      else
                        (case parse_pairs rt d (skip_ws (drop 1 (skip_ws s3))) of
                           Inl e \<Rightarrow> Inl e
                         | Inr (ps, s5) \<Rightarrow> Inr ((key, v) # ps, s5)))))))"
| "parse_items rt d s =
     (case scan_once rt d s of
        Inl e \<Rightarrow> Inl e
      | Inr (v, s1) \<Rightarrow>
          (if starts_with [93] (skip_ws s1) then Inr ([v], drop 1 (skip_ws s1))
           else if \<not> starts_with [44] (skip_ws s1) then Inl JSONDecodeError
           else
             (case parse_items rt d (skip_ws (drop 1 (skip_ws s1))) of
                Inl e \<Rightarrow> Inl e
              | Inr (vs, s2) \<Rightarrow> Inr (v # vs, s2))))"
  by pat_completeness auto

text \<open>Every successful read consumes text; with that the descent terminates.\<close>

lemma push_rest: "push x res = Inr (s, r) \<Longrightarrow> \<exists>s'. res = Inr (s', r)"
  by (auto simp: push_def split: sum.splits)

lemma scanstring_rest: "scanstring s = Inr (x, r) \<Longrightarrow> length r < length s"
proof (induction s arbitrary: x r rule: scanstring.induct)
  case 1
  then show ?case by simp
next
  case (2 c cs)
  show ?case
    using "2.prems" "2.IH"
    by (fastforce simp del: scanstring.simps simp add: scanstring.simps(2) [of c cs]
        split: if_splits list.splits option.splits dest!: push_rest)
qed

lemma skip_ws_le: "length (skip_ws s) \<le> length s"
  by (simp add: skip_ws_def length_dropWhile_le)

lemma starts_with_drop: "starts_with [c] s \<Longrightarrow> length (drop 1 s) < length s"
  by (cases s) (auto simp: starts_with_def)

lemma int_part_nonempty: "int_part s \<noteq> [] \<Longrightarrow> s \<noteq> []"
  by (auto simp: int_part_def)

lemma scan_number_rest:
  assumes "scan_number rt s = Inr (v, r)"
  shows "length r < length s"
proof -
  define sign where "sign = (if starts_with [45] s then [45::nat] else [])"
  define ip where "ip = int_part (drop (length sign) s)"
  have ne: "ip \<noteq> []"
    using assms unfolding scan_number_def Let_def ip_def sign_def by (auto split: if_splits)
  then have "s \<noteq> []" unfolding ip_def by (auto dest!: int_part_nonempty)
  moreover have "length r \<le> length s - length ip"
    using assms unfolding scan_number_def Let_def ip_def sign_def
    by (auto split: if_splits)
  ultimately show ?thesis using ne by (cases s; cases ip) auto
qed

lemma starts_with_nonempty: "starts_with (x # p) s \<Longrightarrow> 0 < length s"
  by (cases s) (auto simp: starts_with_def)

lemma scan_atom_rest: "scan_atom rt s = Inr (v, r) \<Longrightarrow> length r < length s"
  unfolding scan_atom_def
  by (auto split: if_splits dest: scan_number_rest dest!: starts_with_nonempty simp: str_def)

lemma rest_shorter_dom:
  "scan_once_parse_pairs_parse_items_dom (Inl (rt, d, s)) \<Longrightarrow>
     scan_once rt d s = Inr (v, r) \<Longrightarrow> length r < length s"
  "scan_once_parse_pairs_parse_items_dom (Inr (Inl (rt, d, s))) \<Longrightarrow>
     parse_pairs rt d s = Inr (ps, r) \<Longrightarrow> length r < length s"
  "scan_once_parse_pairs_parse_items_dom (Inr (Inr (rt, d, s))) \<Longrightarrow>
     parse_items rt d s = Inr (vs, r) \<Longrightarrow> length r < length s"
proof (induct rt d s and rt d s and rt d s arbitrary: v r and ps r and vs r
    rule: scan_once_parse_pairs_parse_items.pinduct)
  case (1 rt d)
  then show ?case by (simp add: scan_once.psimps)
next
  case (2 rt d c cs)
  have le: "length (skip_ws cs) \<le> length cs" by (rule skip_ws_le)
  show ?case
    using "2.prems" "2.hyps"(2,3) le
    by (auto simp: scan_once.psimps(2) [OF "2.hyps"(1)] split: if_splits sum.splits
        dest!: scanstring_rest scan_atom_rest starts_with_drop)
next
  case (3 rt d s)
  from "3.prems" obtain key s1 v s3 where
    k: "scanstring (drop 1 s) = Inr (key, s1)" and
    v: "scan_once rt d (skip_ws (drop 1 (skip_ws s1))) = Inr (v, s3)" and
    q: "starts_with [34] s" and c: "starts_with [58] (skip_ws s1)" and
    e: "(starts_with [125] (skip_ws s3) \<and> r = drop 1 (skip_ws s3))
        \<or> (\<not> starts_with [125] (skip_ws s3) \<and> starts_with [44] (skip_ws s3)
           \<and> (\<exists>ps'. parse_pairs rt d (skip_ws (drop 1 (skip_ws s3))) = Inr (ps', r)))"
    by (auto simp: parse_pairs.psimps [OF "3.hyps"(1)] split: if_splits sum.splits)
  have a: "length s1 < length s"
    using scanstring_rest [OF k] by simp
  have b: "length s3 < length (skip_ws (drop 1 (skip_ws s1)))"
    using "3.hyps"(2) q k c v by auto
  have b': "length (skip_ws (drop 1 (skip_ws s1))) \<le> length s1"
    using skip_ws_le [of "drop 1 (skip_ws s1)"] skip_ws_le [of s1] by simp
  have d': "length (skip_ws (drop 1 (skip_ws s3))) \<le> length s3"
    using skip_ws_le [of "drop 1 (skip_ws s3)"] skip_ws_le [of s3] by simp
  from e show ?case
  proof
    assume "starts_with [125] (skip_ws s3) \<and> r = drop 1 (skip_ws s3)"
    then show ?thesis using a b b' skip_ws_le [of s3] by simp
  next
    assume h: "\<not> starts_with [125] (skip_ws s3) \<and> starts_with [44] (skip_ws s3)
           \<and> (\<exists>ps'. parse_pairs rt d (skip_ws (drop 1 (skip_ws s3))) = Inr (ps', r))"
    then obtain ps' where p: "parse_pairs rt d (skip_ws (drop 1 (skip_ws s3))) = Inr (ps', r)"
      by blast
    have "length r < length (skip_ws (drop 1 (skip_ws s3)))"
      using "3.hyps"(3) [OF _ k refl _ v refl _ _ p] q c h by simp
    then show ?thesis using a b b' d' by simp
  qed
next
  case (4 rt d s)
  from "4.prems" obtain v s1 where
    v: "scan_once rt d s = Inr (v, s1)" and
    e: "(starts_with [93] (skip_ws s1) \<and> r = drop 1 (skip_ws s1))
        \<or> (\<not> starts_with [93] (skip_ws s1) \<and> starts_with [44] (skip_ws s1)
           \<and> (\<exists>vs'. parse_items rt d (skip_ws (drop 1 (skip_ws s1))) = Inr (vs', r)))"
    by (auto simp: parse_items.psimps [OF "4.hyps"(1)] split: if_splits sum.splits)
  have a: "length s1 < length s" using "4.hyps"(2) v by simp
  have d': "length (skip_ws (drop 1 (skip_ws s1))) \<le> length s1"
    using skip_ws_le [of "drop 1 (skip_ws s1)"] skip_ws_le [of s1] by simp
  from e show ?case
  proof
    assume "starts_with [93] (skip_ws s1) \<and> r = drop 1 (skip_ws s1)"
    then show ?thesis using a skip_ws_le [of s1] by simp
  next
    assume h: "\<not> starts_with [93] (skip_ws s1) \<and> starts_with [44] (skip_ws s1)
           \<and> (\<exists>vs'. parse_items rt d (skip_ws (drop 1 (skip_ws s1))) = Inr (vs', r))"
    then obtain vs' where p: "parse_items rt d (skip_ws (drop 1 (skip_ws s1))) = Inr (vs', r)"
      by blast
    have "length r < length (skip_ws (drop 1 (skip_ws s1)))"
      using "4.hyps"(3) [OF v refl _ _ p] h by simp
    then show ?thesis using a d' by simp
  qed
qed

lemma skip2_le: "length (skip_ws (drop (Suc 0) (skip_ws y))) \<le> length y"
  using skip_ws_le [of "drop (Suc 0) (skip_ws y)"] skip_ws_le [of y] by simp

termination scan_once
  apply (relation "measure (\<lambda>x. case x of
          Inl (rt, d, s) \<Rightarrow> 2 * length s
        | Inr (Inl (rt, d, s)) \<Rightarrow> 2 * length s + 1
        | Inr (Inr (rt, d, s)) \<Rightarrow> 2 * length s + 1)")
  apply simp_all
  subgoal for d c cs using skip_ws_le [of cs] by simp
  subgoal for d c cs using skip_ws_le [of cs] by simp
  subgoal for s b x y
    using scanstring_rest [of "drop (Suc 0) s" x y] skip2_le [of y] by simp
  subgoal for rt d s b x y ba xa ya
    using scanstring_rest [of "drop (Suc 0) s" x y] skip2_le [of y] skip2_le [of ya]
      rest_shorter_dom(1) [of rt d "skip_ws (drop (Suc 0) (skip_ws y))" xa ya]
    by simp
  subgoal for rt d s b x y
    using rest_shorter_dom(1) [of rt d s x y] skip2_le [of y] by simp
  done

text \<open>
  \<open>json.loads(s)\<close> for a \<open>str\<close>: no byte order mark, one value between optional
  whitespace, nothing after it; the decoder starts with the room that the interpreter has
  left.
\<close>

definition json_loads :: "runtime \<Rightarrow> pystr \<Rightarrow> exn + json" where
  "json_loads rt s =
     (if starts_with [0xFEFF] s then Inl JSONDecodeError
      else (case scan_once rt (recursion_room rt) (skip_ws s) of
              Inl e \<Rightarrow> Inl e
            | Inr (v, r) \<Rightarrow> if skip_ws r = [] then Inr v else Inl JSONDecodeError))"

text \<open>
  The equations of \<open>parse_pairs\<close> and \<open>parse_items\<close> have a variable for the text and
  would unfold forever; they are used by name, to evaluate.
\<close>

declare parse_pairs.simps [simp del] parse_items.simps [simp del]

section \<open>The structured-result extractor\<close>

text \<open>
  Unicode whitespace, as \<open>str.isspace\<close>, \<open>str.strip\<close> and the class \<open>\s\<close> of \<open>re\<close> see it.
\<close>

definition py_isspace :: "runtime \<Rightarrow> nat \<Rightarrow> bool" where
  "py_isspace rt c =
     (if c < 127 then c = 32 \<or> (9 \<le> c \<and> c \<le> 13) \<or> (28 \<le> c \<and> c \<le> 31)
      else uni_space rt c)"

text \<open>
  A backtracking matcher for the pieces of the pattern \<open>\{[\s\S]*\}\<close>. A matcher is given
  the text at the current position and answers with the number of characters it matched;
  each piece takes the rest of the pattern as its continuation.
\<close>

type_synonym matcher = "pystr \<Rightarrow> nat option"

definition accept :: matcher where
  "accept s = Some 0"

definition lit :: "nat \<Rightarrow> matcher \<Rightarrow> matcher" where
  "lit a k s = (case s of [] \<Rightarrow> None | c # cs \<Rightarrow> if c = a then map_option Suc (k cs) else None)"

text \<open>
  The greedy star of a character class: take the next character if it is in the class and
  go on; when the rest of the pattern fails after that, give the character back and try
  the rest of the pattern here.
\<close>

fun star :: "(nat \<Rightarrow> bool) \<Rightarrow> matcher \<Rightarrow> matcher" where
  "star p k [] = k []"
| "star p k (c # cs) =
     (if p c then (case star p k cs of Some n \<Rightarrow> Some (Suc n) | None \<Rightarrow> k (c # cs))
      else k (c # cs))"

text \<open>
  \<open>re.search\<close> tries the pattern at each position from the left and stops at the first
  match; the result is the matched text (\<open>match.group()\<close>), or \<open>None\<close>.
\<close>

fun re_search :: "matcher \<Rightarrow> pystr \<Rightarrow> pystr option" where
  "re_search m [] = (case m [] of Some n \<Rightarrow> Some [] | None \<Rightarrow> None)"
| "re_search m (c # cs) =
     (case m (c # cs) of Some n \<Rightarrow> Some (take n (c # cs)) | None \<Rightarrow> re_search m cs)"

definition brace_pattern :: "runtime \<Rightarrow> matcher" where
  "brace_pattern rt = lit 123 (star (\<lambda>c. py_isspace rt c \<or> \<not> py_isspace rt c) (lit 125 accept))"

text \<open>
  The span as the specification words it: from the first opening brace of the text to its
  last closing brace, when the one comes before the other.
\<close>

definition first_open :: "pystr \<Rightarrow> nat option" where
  "first_open text =
     (if 123 \<in> set text then Some (length (takeWhile (\<lambda>c. c \<noteq> 123) text)) else None)"

definition last_close :: "pystr \<Rightarrow> nat option" where
  "last_close text =
     (if 125 \<in> set text
      then Some (length text - 1 - length (takeWhile (\<lambda>c. c \<noteq> 125) (rev text)))
      else None)"

definition brace_span :: "pystr \<Rightarrow> pystr option" where
  "brace_span text =
     (case first_open text of
        None \<Rightarrow> None
      | Some i \<Rightarrow>
          (case last_close text of
             None \<Rightarrow> None
           | Some j \<Rightarrow> if i < j then Some (take (j + 1 - i) (drop i text)) else None))"

text \<open>Some closing brace comes after the first opening brace.\<close>

definition has_span :: "pystr \<Rightarrow> bool" where
  "has_span text = (125 \<in> set (dropWhile (\<lambda>c. c \<noteq> 123) text))"

text \<open>
  \<open>match_group\<close> is \<open>match.group() if match else None\<close>, the text handed to the decoder.
  \<open>extract_json_try\<close> is the body of the \<open>try\<close>, \<open>extract_json\<close> the function with its
  bare \<open>except\<close>.
\<close>

definition match_group :: "runtime \<Rightarrow> pystr \<Rightarrow> pystr option" where
  "match_group rt text = re_search (brace_pattern rt) text"

definition extract_json_try :: "runtime \<Rightarrow> pystr \<Rightarrow> exn + json option" where
  "extract_json_try rt text =
     (case match_group rt text of
        None \<Rightarrow> Inr None
      | Some m \<Rightarrow> (case json_loads rt m of Inl e \<Rightarrow> Inl e | Inr v \<Rightarrow> Inr (Some v)))"

definition extract_json :: "runtime \<Rightarrow> pystr \<Rightarrow> exn + json option" where
  "extract_json rt text =
     (case extract_json_try rt text of Inl e \<Rightarrow> Inr None | Inr r \<Rightarrow> Inr r)"

text \<open>
  A well-formed JSON object inside a text: a substring from an opening brace to a closing
  brace that the decoder accepts.
\<close>

definition substrings :: "pystr \<Rightarrow> pystr list" where
  "substrings s =
     concat (map (\<lambda>i. map (\<lambda>n. take n (drop i s)) [1..<Suc (length s - i)]) [0..<length s])"

definition is_json_object :: "runtime \<Rightarrow> pystr \<Rightarrow> bool" where
  "is_json_object rt s =
     (if starts_with [123] s \<and> starts_with [125] (rev s)
      then (case json_loads rt s of Inl e \<Rightarrow> False | Inr v \<Rightarrow> True)
      else False)"

section \<open>The score and its rating\<close>

text \<open>\<open>score = max(0, min(100, int(ats.get("ats_score",0))))\<close>\<close>

definition score :: "runtime \<Rightarrow> json \<Rightarrow> exn + int" where
  "score rt ats =
     (case py_get ats (str ''ats_score'') (JInt 0) of
        Inl e \<Rightarrow> Inl e
      | Inr v \<Rightarrow>
          (case py_int rt v of
             Inl e \<Rightarrow> Inl e
           | Inr n \<Rightarrow> Inr (max 0 (min 100 n))))"

text \<open>The four labels of lines 162 to 167, each with its emoji, and the rating.\<close>

definition excellent_match :: pystr where
  "excellent_match = 0x1F31F # str '' Excellent Match''"

definition strong_match :: pystr where
  "strong_match = 0x2705 # str '' Strong Match''"

definition average_match :: pystr where
  "average_match = 0x26A0 # str '' Average Match''"

definition weak_match :: pystr where
  "weak_match = 0x274C # str '' Weak Match''"

definition rating :: "int \<Rightarrow> pystr" where
  "rating s =
     (if s \<ge> 85 then excellent_match
      else if s \<ge> 70 then strong_match
      else if s \<ge> 50 then average_match
      else weak_match)"

section \<open>More of Python\<close>

subsection \<open>Truthiness, \<open>str()\<close>, iteration, \<open>join\<close>\<close>

fun py_truthy :: "runtime \<Rightarrow> json \<Rightarrow> bool" where
  "py_truthy rt JNull = False"
| "py_truthy rt (JBool b) = b"
| "py_truthy rt (JInt n) = (n \<noteq> 0)"
| "py_truthy rt (JFloat x) = float_truthy rt x"
| "py_truthy rt (JStr s) = (s \<noteq> [])"
| "py_truthy rt (JArr xs) = (xs \<noteq> [])"
| "py_truthy rt (JObj d) = (d \<noteq> [])"

fun nat_digits :: "nat \<Rightarrow> pystr" where
  "nat_digits n = (if n < 10 then [48 + n] else nat_digits (n div 10) @ [48 + n mod 10])"

declare nat_digits.simps [simp del]

definition str_of_int :: "int \<Rightarrow> pystr" where
  "str_of_int i = (if i < 0 then 45 # nat_digits (nat (- i)) else nat_digits (nat i))"

text \<open>
  \<open>str(x)\<close>, which is also what an f-string puts in place of \<open>{x}\<close>. An \<open>int\<close> of more
  digits than the limit cannot be printed.
\<close>

fun py_str :: "runtime \<Rightarrow> json \<Rightarrow> exn + pystr" where
  "py_str rt (JStr s) = Inr s"
| "py_str rt (JInt n) =
     (if too_many_digits rt (length (nat_digits (nat \<bar>n\<bar>))) then Inl ValueError
      else Inr (str_of_int n))"
| "py_str rt (JBool b) = Inr (if b then str ''True'' else str ''False'')"
| "py_str rt JNull = Inr (str ''None'')"
| "py_str rt v = str_other rt v"

text \<open>
  The items that a \<open>for\<close> loop or \<open>join\<close> takes from a value: the elements of a \<open>list\<close>, the
  characters of a \<open>str\<close>, the keys of a \<open>dict\<close>; nothing else is iterable.
\<close>

fun py_iter :: "json \<Rightarrow> exn + json list" where
  "py_iter (JArr xs) = Inr xs"
| "py_iter (JStr s) = Inr (map (\<lambda>c. JStr [c]) s)"
| "py_iter (JObj d) = Inr (map (\<lambda>kv. JStr (fst kv)) d)"
| "py_iter _ = Inl TypeError"

text \<open>\<open>sep.join(items)\<close>: every item must be a \<open>str\<close>.\<close>

fun join_items :: "pystr \<Rightarrow> json list \<Rightarrow> exn + pystr" where
  "join_items sep [] = Inr []"
| "join_items sep [JStr s] = Inr s"
| "join_items sep (JStr s # x # xs) =
     (case join_items sep (x # xs) of Inl e \<Rightarrow> Inl e | Inr r \<Rightarrow> Inr (s @ sep @ r))"
| "join_items sep (_ # _) = Inl TypeError"

definition py_join :: "pystr \<Rightarrow> json \<Rightarrow> exn + pystr" where
  "py_join sep v = (case py_iter v of Inl e \<Rightarrow> Inl e | Inr items \<Rightarrow> join_items sep items)"

definition py_strip :: "runtime \<Rightarrow> pystr \<Rightarrow> pystr" where
  "py_strip rt s = rev (dropWhile (py_isspace rt) (rev (dropWhile (py_isspace rt) s)))"

text \<open>
  \<open>s.replace(old, new)\<close> for one-character \<open>old\<close> and \<open>new\<close>, and \<open>s.title()\<close> for text
  whose letters are ASCII, as the section names are: a letter after a letter is made
  lower case, any other letter upper case.
\<close>

definition py_replace1 :: "nat \<Rightarrow> nat \<Rightarrow> pystr \<Rightarrow> pystr" where
  "py_replace1 old new s = map (\<lambda>c. if c = old then new else c) s"

fun title_from :: "bool \<Rightarrow> pystr \<Rightarrow> pystr" where
  "title_from prev [] = []"
| "title_from prev (c # cs) =
     (if 97 \<le> c \<and> c \<le> 122 then (if prev then c else c - 32) # title_from True cs
      else if 65 \<le> c \<and> c \<le> 90 then (if prev then c + 32 else c) # title_from True cs
      else c # title_from False cs)"

definition py_title :: "pystr \<Rightarrow> pystr" where
  "py_title s = title_from False s"

section \<open>The outside world\<close>

type_synonym bytes = "nat list"

typedecl image

datatype style = Heading1 | Heading3 | Normal

datatype flowable = Paragraph pystr style | Spacer nat nat

text \<open>
  What the program calls and does not implement. \<open>remote model messages temperature\<close> is
  \<open>groq_client.chat.completions.create(...).choices[0].message.content\<close>, a text or an
  exception, with each message a pair of role and content and the temperature in
  hundredths; \<open>convert_from_bytes\<close> and
  \<open>image_to_string\<close> are those of \<open>pdf2image\<close> and \<open>pytesseract\<close>. The document library
  reads the text of a paragraph as markup when the paragraph is made, and raises on a text
  that its parser refuses: \<open>markup_error text style\<close> is the exception that
  \<open>Paragraph(text, style)\<close> raises, \<open>None\<close> when the paragraph is made. \<open>build_pdf story\<close> is
  \<open>doc.build(story)\<close> followed by reading the file back.
\<close>

record services =
  remote :: "pystr \<Rightarrow> (pystr \<times> pystr) list \<Rightarrow> nat \<Rightarrow> exn + pystr"
  convert_from_bytes :: "bytes \<Rightarrow> exn + image list"
  image_to_string :: "image \<Rightarrow> exn + pystr"
  markup_error :: "pystr \<Rightarrow> style \<Rightarrow> exn option"
  build_pdf :: "flowable list \<Rightarrow> exn + bytes"

section \<open>Helpers\<close>

text \<open>
  \<open>extract_text_from_pdf\<close>: the pages of the document, each read by the text recognition,
  joined by line feeds. The first page that fails ends it.
\<close>

fun ocr_pages :: "services \<Rightarrow> image list \<Rightarrow> exn + pystr list" where
  "ocr_pages sv [] = Inr []"
| "ocr_pages sv (p # ps) =
     (case image_to_string sv p of
        Inl e \<Rightarrow> Inl e
      | Inr t \<Rightarrow> (case ocr_pages sv ps of Inl e \<Rightarrow> Inl e | Inr ts \<Rightarrow> Inr (t # ts)))"

fun join_lines :: "pystr list \<Rightarrow> pystr" where
  "join_lines [] = []"
| "join_lines [t] = t"
| "join_lines (t # u # ts) = t @ [10] @ join_lines (u # ts)"

definition extract_text_from_pdf :: "services \<Rightarrow> bytes \<Rightarrow> exn + pystr" where
  "extract_text_from_pdf sv pdf_file =
     (case convert_from_bytes sv pdf_file of
        Inl e \<Rightarrow> Inl e
      | Inr pages \<Rightarrow>
          (case ocr_pages sv pages of Inl e \<Rightarrow> Inl e | Inr ts \<Rightarrow> Inr (join_lines ts)))"

text \<open>
  \<open>safe_groq_call\<close> sends the messages to the fixed model and returns the completion; it
  handles nothing. Its default temperature is never used: every caller passes its own.
\<close>

definition safe_groq_call :: "services \<Rightarrow> (pystr \<times> pystr) list \<Rightarrow> nat \<Rightarrow> exn + pystr" where
  "safe_groq_call sv messages temperature =
     remote sv (str ''llama-3.3-70b-versatile'') messages temperature"

section \<open>The four requests\<close>

text \<open>The part of the f-strings that all four prompts share.\<close>

definition resume_and_jd :: "pystr \<Rightarrow> pystr \<Rightarrow> pystr" where
  "resume_and_jd resume_text jd_text =
     [10] @ str ''Resume:'' @ [10] @ resume_text @ [10, 10] @ str ''Job Description:'' @ [10]
     @ jd_text @ [10]"

text \<open>\<open>x or {}\<close>, for \<open>x\<close> the result of the extractor.\<close>

definition or_empty :: "runtime \<Rightarrow> json option \<Rightarrow> json" where
  "or_empty rt r =
     (case r of None \<Rightarrow> JObj [] | Some v \<Rightarrow> if py_truthy rt v then v else JObj [])"

definition full_analysis_prompt :: pystr where
  \<open>full_analysis_prompt =
     str ''Return ONLY JSON:'' @ [10]
     @ str ''{''
     @ str ''"ats_score":0,''
     @ str ''"ats_summary":"",''
     @ str ''"improvements":[],''
     @ str ''"skills_found":[],''
     @ str ''"skills_missing":[],''
     @ str ''"strengths":[],''
     @ str ''"weaknesses":[],''
     @ str ''"resume_rewrite":""''
     @ str ''}''\<close>

text \<open>
  In \<open>groq_full_analysis\<close> and \<open>groq_career_recommendation\<close> the inner \<open>case\<close> is the body
  of the \<open>try\<close> and the outer one the bare \<open>except\<close>, which returns the empty \<open>dict\<close>.
  \<open>groq_summary\<close> and \<open>groq_ats_explanation\<close> have no handler.
\<close>

definition groq_full_analysis :: "runtime \<Rightarrow> services \<Rightarrow> pystr \<Rightarrow> pystr \<Rightarrow> exn + json" where
  "groq_full_analysis rt sv resume_text jd_text =
     (let system_prompt = full_analysis_prompt;
          user_prompt = resume_and_jd resume_text jd_text
      in case (case safe_groq_call sv
                      [(str ''system'', system_prompt), (str ''user'', user_prompt)] 5 of
                 Inl e \<Rightarrow> Inl e
               | Inr raw \<Rightarrow>
                   (case extract_json rt raw of
                      Inl e \<Rightarrow> Inl e
                    | Inr r \<Rightarrow> Inr (or_empty rt r))) of
           Inl e \<Rightarrow> Inr (JObj [])
         | Inr d \<Rightarrow> Inr d)"

definition groq_summary :: "services \<Rightarrow> pystr \<Rightarrow> pystr \<Rightarrow> exn + pystr" where
  "groq_summary sv resume_text jd_text =
     safe_groq_call sv
       [(str ''user'',
         [10] @ str ''Write one paragraph comparing resume and job description.'' @ [10]
         @ resume_and_jd resume_text jd_text)]
       30"

definition groq_ats_explanation :: "services \<Rightarrow> pystr \<Rightarrow> pystr \<Rightarrow> int \<Rightarrow> exn + pystr" where
  "groq_ats_explanation sv resume_text jd_text sc =
     safe_groq_call sv
       [(str ''user'',
         [10] @ str ''Explain why ATS score is '' @ str_of_int sc @ str ''% in simple English.''
         @ [10] @ resume_and_jd resume_text jd_text)]
       20"

definition career_prompt :: pystr where
  "career_prompt =
     str ''Return ONLY JSON with keys: ''
     @ str ''recommended_roles (list), why_fit (string), ''
     @ str ''skills_to_improve (list), resume_upgrade_tips (list)''"

definition groq_career_recommendation ::
  "runtime \<Rightarrow> services \<Rightarrow> pystr \<Rightarrow> pystr \<Rightarrow> exn + json" where
  "groq_career_recommendation rt sv resume_text jd_text =
     (let system_prompt = career_prompt;
          user_prompt = resume_and_jd resume_text jd_text
      in case (case safe_groq_call sv
                      [(str ''system'', system_prompt), (str ''user'', user_prompt)] 5 of
                 Inl e \<Rightarrow> Inl e
               | Inr raw \<Rightarrow>
                   (case extract_json rt raw of
                      Inl e \<Rightarrow> Inl e
                    | Inr r \<Rightarrow> Inr (or_empty rt r))) of
           Inl e \<Rightarrow> Inr (JObj [])
         | Inr d \<Rightarrow> Inr d)"

section \<open>The report\<close>

definition report_sections :: "pystr list" where
  "report_sections =
     [str ''skills_found'', str ''skills_missing'', str ''strengths'', str ''weaknesses'',
      str ''improvements'']"

text \<open>\<open>Paragraph(text, style)\<close>: the paragraph, or the exception of the markup parser.\<close>

definition new_paragraph :: "services \<Rightarrow> pystr \<Rightarrow> style \<Rightarrow> exn + flowable" where
  "new_paragraph sv text style =
     (case markup_error sv text style of
        Some e \<Rightarrow> Inl e
      | None \<Rightarrow> Inr (Paragraph text style))"

text \<open>
  The inner loop of lines 136 and 137: for each item its \<open>str\<close>, then its paragraph. The
  first item that fails ends it.
\<close>

fun bullets :: "runtime \<Rightarrow> services \<Rightarrow> json list \<Rightarrow> exn + flowable list" where
  "bullets rt sv [] = Inr []"
| "bullets rt sv (item # items) =
     (case py_str rt item of
        Inl e \<Rightarrow> Inl e
      | Inr t \<Rightarrow>
          (case new_paragraph sv (str ''- '' @ t) Normal of
             Inl e \<Rightarrow> Inl e
           | Inr b \<Rightarrow>
               (case bullets rt sv items of
                  Inl e \<Rightarrow> Inl e
                | Inr bs \<Rightarrow> Inr (b # bs))))"

text \<open>
  One turn of the outer loop, lines 135 to 138: the heading is made first, then the field
  is read and iterated.
\<close>

definition section_block ::
  "runtime \<Rightarrow> services \<Rightarrow> json \<Rightarrow> pystr \<Rightarrow> exn + flowable list" where
  "section_block rt sv data section =
     (case new_paragraph sv (py_title (py_replace1 95 32 section)) Heading3 of
        Inl e \<Rightarrow> Inl e
      | Inr heading \<Rightarrow>
          (case py_get data section (JArr []) of
             Inl e \<Rightarrow> Inl e
           | Inr v \<Rightarrow>
               (case py_iter v of
                  Inl e \<Rightarrow> Inl e
                | Inr items \<Rightarrow>
                    (case bullets rt sv items of
                       Inl e \<Rightarrow> Inl e
                     | Inr bs \<Rightarrow> Inr (heading # bs @ [Spacer 1 8])))))"

fun section_blocks ::
  "runtime \<Rightarrow> services \<Rightarrow> json \<Rightarrow> pystr list \<Rightarrow> exn + flowable list" where
  "section_blocks rt sv data [] = Inr []"
| "section_blocks rt sv data (section # others) =
     (case section_block rt sv data section of
        Inl e \<Rightarrow> Inl e
      | Inr b \<Rightarrow>
          (case section_blocks rt sv data others of
             Inl e \<Rightarrow> Inl e
           | Inr bs \<Rightarrow> Inr (b @ bs)))"

text \<open>
  The \<open>story\<close> of \<open>generate_pdf_report\<close>, as it stands when the document is built, in the
  order of lines 129 to 138: the title, the score line with the field as \<open>str\<close> gives it,
  then the sections. Whatever raises on the way ends the function before anything is built.
\<close>

definition report_story :: "runtime \<Rightarrow> services \<Rightarrow> json \<Rightarrow> exn + flowable list" where
  "report_story rt sv data =
     (case new_paragraph sv (str ''ATS Resume Analysis Report'') Heading1 of
        Inl e \<Rightarrow> Inl e
      | Inr title \<Rightarrow>
          (case py_get data (str ''ats_score'') (JInt 0) of
             Inl e \<Rightarrow> Inl e
           | Inr sc \<Rightarrow>
               (case py_str rt sc of
                  Inl e \<Rightarrow> Inl e
                | Inr t \<Rightarrow>
                    (case new_paragraph sv (str ''ATS Score: '' @ t @ str ''%'') Normal of
                       Inl e \<Rightarrow> Inl e
                     | Inr score_line \<Rightarrow>
                         (case section_blocks rt sv data report_sections of
                            Inl e \<Rightarrow> Inl e
                          | Inr blocks \<Rightarrow>
                              Inr ([title, Spacer 1 10, score_line, Spacer 1 10]
                                   @ blocks))))))"

definition generate_pdf_report :: "runtime \<Rightarrow> services \<Rightarrow> json \<Rightarrow> exn + bytes" where
  "generate_pdf_report rt sv data =
     (case report_story rt sv data of Inl e \<Rightarrow> Inl e | Inr story \<Rightarrow> build_pdf sv story)"

section \<open>The page\<close>

text \<open>
  What the handler shows, call by call. The calls of the page library are taken not to
  raise. A run of the handler is the list of what it has shown and the exception that
  ended it, if one did.
\<close>

datatype download = Text json | Bytes bytes

datatype ui =
    StError json
  | StSuccess json
  | StWarning json
  | StInfo json
  | StSubheader pystr
  | StProgress int
  | StMarkdown pystr
  | StExpander pystr bool
  | StTextArea pystr json nat
  | StDownloadButton pystr download pystr

type_synonym run = "ui list \<times> exn option"

text \<open>
  \<open>say\<close> is a run of calls that show; \<open>with_value x f\<close> evaluates \<open>x\<close>, stops with its
  exception or goes on with its value; \<open>seq\<close> puts one statement after another and stops
  with the first exception; \<open>for_each f x\<close> is \<open>for item in x: f(item)\<close>.
\<close>

definition say :: "ui list \<Rightarrow> run" where
  "say es = (es, None)"

definition with_value :: "exn + 'a \<Rightarrow> ('a \<Rightarrow> run) \<Rightarrow> run" where
  "with_value x f = (case x of Inl e \<Rightarrow> ([], Some e) | Inr v \<Rightarrow> f v)"

definition seq :: "run \<Rightarrow> run \<Rightarrow> run" where
  "seq a b = (case snd a of Some e \<Rightarrow> a | None \<Rightarrow> (fst a @ fst b, snd b))"

definition seq_all :: "run list \<Rightarrow> run" where
  "seq_all rs = foldr seq rs ([], None)"

definition for_each :: "(json \<Rightarrow> ui) \<Rightarrow> exn + json \<Rightarrow> run" where
  "for_each f x = with_value x (\<lambda>v. with_value (py_iter v) (\<lambda>items. say (map f items)))"

text \<open>
  \<open>show_career\<close> is the career block of lines 198 to 209 and \<open>show_analysis\<close> the handler
  from line 160 on, for the record that the full analysis returned.
\<close>

definition show_career :: "json \<Rightarrow> run" where
  "show_career career =
     seq_all
       [say [StExpander (0x1F3AF # str '' AI Career Fit Recommendations'') True,
             StSubheader (str ''Recommended Roles'')],
        for_each StSuccess (py_get career (str ''recommended_roles'') (JArr [])),
        say [StSubheader (str ''Why you fit'')],
        with_value (py_get career (str ''why_fit'') (JStr [])) (\<lambda>v. say [StInfo v]),
        say [StSubheader (str ''Skills to improve'')],
        for_each StWarning (py_get career (str ''skills_to_improve'') (JArr [])),
        say [StSubheader (str ''Resume upgrade tips'')],
        for_each StInfo (py_get career (str ''resume_upgrade_tips'') (JArr []))]"

definition skills_expander :: pystr where
  "skills_expander =
     0x2714 # str '' Skills / '' @ 0x274C # str '' Missing / '' @ 0x1F4AA # str '' Strengths / ''
     @ 0x26A0 # str '' Weaknesses''"

definition show_analysis ::
  "runtime \<Rightarrow> services \<Rightarrow> pystr \<Rightarrow> pystr \<Rightarrow> json \<Rightarrow> run" where
  "show_analysis rt sv resume_text jd_text ats =
     with_value (score rt ats) (\<lambda>sc.
       seq_all
         [say [StSubheader (0x1F9E0 # str '' ATS Score''),
               StProgress sc,
               StMarkdown (str_of_int sc @ str ''% '' @ [0x2014] @ str '' '' @ rating sc),
               StSubheader (0x1F4CC # str '' ATS Score Explanation'')],
          with_value (groq_ats_explanation sv resume_text jd_text sc)
            (\<lambda>t. say [StInfo (JStr t)]),
          say [StSubheader (0x1F4DD # str '' AI Summary'')],
          with_value (groq_summary sv resume_text jd_text) (\<lambda>t. say [StInfo (JStr t)]),
          say [StExpander skills_expander True],
          with_value (py_get ats (str ''skills_found'') (JArr [])) (\<lambda>v.
            with_value (py_join (str '', '') v) (\<lambda>j.
              say [StSuccess (JStr (str ''Skills Found: '' @ j))])),
          with_value (py_get ats (str ''skills_missing'') (JArr [])) (\<lambda>v.
            with_value (py_join (str '', '') v) (\<lambda>j.
              say [StError (JStr (str ''Missing Skills: '' @ j))])),
          say [StSubheader (str ''Strengths'')],
          for_each StSuccess (py_get ats (str ''strengths'') (JArr [])),
          say [StSubheader (str ''Weaknesses'')],
          for_each StWarning (py_get ats (str ''weaknesses'') (JArr [])),
          say [StExpander (0x270D # str '' AI Resume Rewrite (ATS-friendly)'') False],
          with_value (py_get ats (str ''resume_rewrite'') (JStr [])) (\<lambda>rewrite.
            say [StTextArea (str ''Rewritten Resume'') rewrite 300,
                 StDownloadButton (str ''Download Rewritten Resume'') (Text rewrite)
                   (str ''rewritten_resume.txt'')]),
          with_value (groq_career_recommendation rt sv resume_text jd_text) show_career,
          with_value (generate_pdf_report rt sv ats) (\<lambda>pdf.
            say [StDownloadButton (0x1F4E5 # str '' Download ATS PDF Report'') (Bytes pdf)
                   (str ''ATS_Report.pdf'')])])"

text \<open>
  The body of \<open>if analyze:\<close>, what the page does when the button is pressed. The uploaded
  file is \<open>None\<close> or a file, which is truthy.
\<close>

definition analyze_clicked :: "runtime \<Rightarrow> services \<Rightarrow> bytes option \<Rightarrow> pystr \<Rightarrow> run" where
  "analyze_clicked rt sv uploaded_file jd_text =
     (case uploaded_file of
        None \<Rightarrow> say [StError (JStr (str ''Please upload resume and job description''))]
      | Some pdf_file \<Rightarrow>
          if py_strip rt jd_text = []
          then say [StError (JStr (str ''Please upload resume and job description''))]
          else
            with_value (extract_text_from_pdf sv pdf_file) (\<lambda>resume_text.
              with_value (groq_full_analysis rt sv resume_text jd_text) (\<lambda>ats.
                show_analysis rt sv resume_text jd_text ats)))"

section \<open>The records of the data model\<close>

text \<open>
  The two records of the specification, field by field; a field may be missing. Their
  \<open>dict\<close> has the fields that are present.
\<close>

record analysis_result =
  ats_score :: "int option"
  ats_summary :: "pystr option"
  improvements :: "pystr list option"
  skills_found :: "pystr list option"
  skills_missing :: "pystr list option"
  strengths :: "pystr list option"
  weaknesses :: "pystr list option"
  resume_rewrite :: "pystr option"

record career_recommendation =
  recommended_roles :: "pystr list option"
  why_fit :: "pystr option"
  skills_to_improve :: "pystr list option"
  resume_upgrade_tips :: "pystr list option"





text \<open>
  A field or its empty form, and the record with the empty form in place of every missing
  field: 0 for the score, the empty text, the empty sequence.
\<close>

definition or_default :: "'a \<Rightarrow> 'a option \<Rightarrow> 'a" where
  "or_default d v = (case v of None \<Rightarrow> d | Some x \<Rightarrow> x)"





















section \<open>Examples of the outside world\<close>


definition answering :: "pystr \<Rightarrow> services" where
  "answering text =
     \<lparr> remote = (\<lambda>model messages temperature. Inr text),
       convert_from_bytes = (\<lambda>pdf. Inr []),
       image_to_string = (\<lambda>page. Inr []),
       markup_error = (\<lambda>text style. None),
       build_pdf = (\<lambda>story. Inr []) \<rparr>"



section \<open>Properties\<close>

subsection \<open>The pattern finds the span\<close>

lemma star_no_close: "125 \<notin> set s \<Longrightarrow> star p (lit 125 accept) s = None"
  by (induction s) (auto simp: lit_def)

lemma star_last_close:
  "\<forall>c. p c \<Longrightarrow> 125 \<notin> set post \<Longrightarrow>
     star p (lit 125 accept) (mid @ 125 # post) = Some (Suc (length mid))"
  by (induction mid) (auto simp: lit_def accept_def star_no_close)

lemma brace_here:
  "125 \<notin> set post \<Longrightarrow>
     brace_pattern rt (123 # mid @ 125 # post) = Some (Suc (Suc (length mid)))"
  by (simp add: brace_pattern_def lit_def star_last_close)

lemma brace_not_here:
  "s = [] \<or> hd s \<noteq> 123 \<or> 125 \<notin> set (tl s) \<Longrightarrow> brace_pattern rt s = None"
  by (cases s) (auto simp: brace_pattern_def lit_def star_no_close)

lemma has_span_intro: "has_span (p @ 123 # m @ 125 # q)"
  unfolding has_span_def by (induction p) auto

lemma has_span_canonical:
  assumes "has_span text"
  shows "\<exists>pre mid post. text = pre @ 123 # mid @ 125 # post
           \<and> 123 \<notin> set pre \<and> 125 \<notin> set post"
proof -
  let ?pre = "takeWhile (\<lambda>c. c \<noteq> 123) text"
  let ?d = "dropWhile (\<lambda>c. c \<noteq> 123) text"
  from assms have "125 \<in> set ?d" unfolding has_span_def .
  then have ne: "?d \<noteq> []" by (metis empty_iff list.set(1))
  then have "hd ?d = 123" using hd_dropWhile [of "\<lambda>c. c \<noteq> 123" "text"] by blast
  with ne obtain rest where d: "?d = 123 # rest" by (cases ?d) auto
  with assms have "125 \<in> set rest" unfolding has_span_def by simp
  then obtain mid post where r: "rest = mid @ 125 # post" "125 \<notin> set post"
    by (meson split_list_last)
  have "text = ?pre @ ?d" by simp
  with d r have "text = ?pre @ 123 # mid @ 125 # post" by simp
  moreover have "123 \<notin> set ?pre" by (auto dest: set_takeWhileD)
  ultimately show ?thesis using r(2) by blast
qed

lemma has_span_Cons: "has_span (c # cs) = (if c = 123 then 125 \<in> set cs else has_span cs)"
  by (simp add: has_span_def)

lemma re_search_span:
  "123 \<notin> set pre \<Longrightarrow> 125 \<notin> set post \<Longrightarrow>
     re_search (brace_pattern rt) (pre @ 123 # mid @ 125 # post) = Some (123 # mid @ [125])"
proof (induction pre)
  case Nil
  then show ?case by (simp add: brace_here)
next
  case (Cons c pre)
  then have "brace_pattern rt ((c # pre) @ 123 # mid @ 125 # post) = None"
    by (intro brace_not_here) simp
  with Cons show ?case by simp
qed

lemma re_search_no_close:
  "125 \<notin> set s \<Longrightarrow> re_search (brace_pattern rt) s = None"
proof (induction s)
  case Nil
  then show ?case by (simp add: brace_not_here)
next
  case (Cons c cs)
  then have "brace_pattern rt (c # cs) = None" by (intro brace_not_here) simp
  with Cons show ?case by simp
qed

lemma re_search_no_span:
  "\<not> has_span s \<Longrightarrow> re_search (brace_pattern rt) s = None"
proof (induction s)
  case Nil
  then show ?case by (simp add: brace_not_here)
next
  case (Cons c cs)
  show ?case
  proof (cases "c = 123")
    case True
    with Cons.prems have n: "125 \<notin> set cs" by (simp add: has_span_Cons)
    then have "brace_pattern rt (c # cs) = None" by (intro brace_not_here) simp
    with n show ?thesis by (simp add: re_search_no_close)
  next
    case False
    with Cons.prems have "\<not> has_span cs" by (simp add: has_span_Cons)
    moreover from False have "brace_pattern rt (c # cs) = None" by (intro brace_not_here) simp
    ultimately show ?thesis using Cons.IH by simp
  qed
qed

lemma brace_span_span:
  assumes "123 \<notin> set pre" "125 \<notin> set post"
  shows "brace_span (pre @ 123 # mid @ 125 # post) = Some (123 # mid @ [125])"
proof -
  let ?t = "pre @ 123 # mid @ 125 # post"
  have "takeWhile (\<lambda>c. c \<noteq> 123) ?t = pre"
    using assms(1) by (induction pre) auto
  then have i: "first_open ?t = Some (length pre)" by (simp add: first_open_def)
  have "rev ?t = rev post @ 125 # rev (pre @ 123 # mid)" by simp
  moreover have "takeWhile (\<lambda>c. c \<noteq> 125) (rev post @ 125 # rev (pre @ 123 # mid)) = rev post"
    using assms(2) by (subst takeWhile_append2) auto
  ultimately have "takeWhile (\<lambda>c. c \<noteq> 125) (rev ?t) = rev post" by simp
  then have j: "last_close ?t = Some (length pre + Suc (length mid))"
    by (simp add: last_close_def)
  show ?thesis by (simp add: brace_span_def i j)
qed

lemma first_index:
  "a \<in> set xs \<Longrightarrow>
     length (takeWhile (\<lambda>c. c \<noteq> a) xs) < length xs
     \<and> xs ! length (takeWhile (\<lambda>c. c \<noteq> a) xs) = a"
  by (induction xs) auto

lemma brace_span_no_span:
  assumes "\<not> has_span text"
  shows "brace_span text = None"
proof (rule ccontr)
  assume "brace_span text \<noteq> None"
  then obtain i j where i: "first_open text = Some i" and j: "last_close text = Some j"
    and lt: "i < j"
    by (auto simp: brace_span_def split: option.splits if_splits)
  have oi: "123 \<in> set text" "i = length (takeWhile (\<lambda>c. c \<noteq> 123) text)"
    using i by (auto simp: first_open_def split: if_splits)
  have oj: "125 \<in> set text" "j = length text - 1 - length (takeWhile (\<lambda>c. c \<noteq> 125) (rev text))"
    using j by (auto simp: last_close_def split: if_splits)
  have il: "i < length text" and ti: "text ! i = 123"
    using first_index [OF oi(1)] oi(2) by simp_all
  define k where "k = length (takeWhile (\<lambda>c. c \<noteq> 125) (rev text))"
  have k: "k < length text" "rev text ! k = 125"
    using first_index [of 125 "rev text"] oj(1) by (simp_all add: k_def)
  have jk: "j = length text - Suc k" using oj(2) by (simp add: k_def)
  have jl: "j < length text" using k(1) jk by simp
  have tj: "text ! j = 125" using k rev_nth [of k "text"] jk by simp
  have "text = take i text @ 123 # drop (Suc i) text"
    using il ti by (metis id_take_nth_drop)
  moreover have "drop (Suc i) text = take (j - Suc i) (drop (Suc i) text) @ 125 # drop (Suc j) text"
    using id_take_nth_drop [of "j - Suc i" "drop (Suc i) text"] lt jl tj by simp
  ultimately have "has_span text" by (metis has_span_intro)
  with assms show False by blast
qed

lemma search_is_span: "re_search (brace_pattern rt) text = brace_span text"
proof (cases "has_span text")
  case True
  then obtain pre mid post where "text = pre @ 123 # mid @ 125 # post"
    "123 \<notin> set pre" "125 \<notin> set post"
    using has_span_canonical by blast
  then show ?thesis by (simp add: re_search_span brace_span_span)
next
  case False
  then show ?thesis by (simp add: re_search_no_span brace_span_no_span)
qed

subsection \<open>The score\<close>

lemma labels_distinct:
  "distinct [excellent_match, strong_match, average_match, weak_match]"
  by (simp add: excellent_match_def strong_match_def average_match_def weak_match_def)












text \<open>
  C5. On the clamped range the rating is decided by exactly four cases: from 85 on the
  Excellent label, from 70 to 84 the Strong label, from 50 to 69 the Average label, below
  50 the Weak label. The four labels differ, and the boundaries 50, 70, 85 and the
  extremes 0 and 100 fall where these cases put them.
\<close>

theorem rating_cases:
  "(0 \<le> s \<and> s \<le> 100 \<longrightarrow>
      (85 \<le> s \<longrightarrow> rating s = excellent_match)
    \<and> (70 \<le> s \<and> s < 85 \<longrightarrow> rating s = strong_match)
    \<and> (50 \<le> s \<and> s < 70 \<longrightarrow> rating s = average_match)
    \<and> (s < 50 \<longrightarrow> rating s = weak_match))
   \<and> rating 0 = weak_match \<and> rating 50 = average_match \<and> rating 70 = strong_match
   \<and> rating 85 = excellent_match \<and> rating 100 = excellent_match
   \<and> distinct [excellent_match, strong_match, average_match, weak_match]"
  using labels_distinct by (simp add: rating_def)

theorem rating_cases_witness:
  "(0::int) \<le> 72 \<and> (72::int) \<le> 100 \<and> (70::int) \<le> 72 \<and> (72::int) < 85
   \<and> rating 72 = strong_match \<and> rating 49 = weak_match \<and> rating 69 = average_match
   \<and> rating 84 = strong_match"
  using rating_cases [of 72] rating_cases [of 49] rating_cases [of 69] rating_cases [of 84]
  by simp

subsection \<open>The extractor\<close>

lemma loads_object:
  assumes "json_loads rt (123 # s) = Inr v"
  shows "\<exists>d. v = JObj d"
proof -
  have "skip_ws (123 # s) = 123 # s" by (simp add: skip_ws_def is_ws_def)
  with assms obtain r where "scan_once rt (recursion_room rt) (123 # s) = Inr (v, r)"
    unfolding json_loads_def by (auto split: sum.splits if_splits)
  then show ?thesis
    unfolding scan_once.simps by (auto split: sum.splits if_splits)
qed

lemma match_group_open: "match_group rt text = Some m \<Longrightarrow> \<exists>s. m = 123 # s"
proof -
  assume a: "match_group rt text = Some m"
  then have "has_span text"
    using re_search_no_span [of "text" rt] by (auto simp: match_group_def)
  then obtain pre mid post where "text = pre @ 123 # mid @ 125 # post"
    "123 \<notin> set pre" "125 \<notin> set post"
    using has_span_canonical by blast
  with a show ?thesis by (auto simp: match_group_def re_search_span)
qed

lemma extract_json_dict:
  "extract_json rt text = Inr (Some v) \<Longrightarrow> \<exists>d. v = JObj d"
  by (auto simp: extract_json_def extract_json_try_def split: option.splits sum.splits
      dest!: match_group_open loads_object)

lemmas ev = json_loads_def str_def skip_ws_def is_ws_def starts_with_def scan_atom_def
  scan_number_def int_part_def frac_part_def exp_part_def is_digit_def too_many_digits_def
  digits_value_def dict_of_def push_def escape_char_def hex_digit_def Let_def ascii_runtime_def
  parse_pairs.simps parse_items.simps

lemmas ev_re = match_group_def brace_pattern_def lit_def accept_def py_isspace_def
  extract_json_def extract_json_try_def

text \<open>
  C2. The text that the extractor hands to the decoder is the span from the first opening
  brace of the input to its last closing brace: the match is greedy, no braces are
  balanced. When the input has no such span, nothing is decoded and the result is
  \<open>None\<close>.
\<close>

theorem extract_json_greedy_span:
  "match_group rt text = brace_span text
   \<and> extract_json_try rt text =
       (case brace_span text of
          None \<Rightarrow> Inr None
        | Some m \<Rightarrow> (case json_loads rt m of Inl e \<Rightarrow> Inl e | Inr v \<Rightarrow> Inr (Some v)))"
  by (simp add: extract_json_try_def match_group_def search_is_span)

theorem extract_json_greedy_span_witness:
  "match_group ascii_runtime (str ''a {x} b } c'') = Some (str ''{x} b }'')
   \<and> brace_span (str ''a {x} b } c'') = Some (str ''{x} b }'')
   \<and> extract_json_try ascii_runtime (str ''a {x} b } c'') = Inl JSONDecodeError
   \<and> brace_span (str ''} x {'') = None
   \<and> extract_json_try ascii_runtime (str ''} x {'') = Inr None"
proof -
  have 1: "brace_span (str ''a {x} b } c'') = Some (str ''{x} b }'')"
    by (simp add: brace_span_def first_open_def last_close_def str_def)
  have 2: "brace_span (str ''} x {'') = None"
    by (simp add: brace_span_def first_open_def last_close_def str_def)
  have 3: "json_loads ascii_runtime (str ''{x} b }'') = Inl JSONDecodeError"
    by (simp add: ev)
  show ?thesis
    using extract_json_greedy_span [of ascii_runtime "str ''a {x} b } c''"]
      extract_json_greedy_span [of ascii_runtime "str ''} x {''"]
    by (simp add: 1 2 3)
qed

text \<open>
  C3. When the input has no span from an opening brace to a closing brace (in particular
  when it has no brace at all), and when the decoder refuses the span, the extractor
  returns \<open>None\<close>; and whatever the input, the extractor returns and raises nothing.
\<close>

theorem extract_json_no_result:
  "(brace_span text = None \<longrightarrow> extract_json rt text = Inr None)
   \<and> (123 \<notin> set text \<and> 125 \<notin> set text \<longrightarrow> extract_json rt text = Inr None)
   \<and> (\<forall>m e. brace_span text = Some m \<and> json_loads rt m = Inl e
          \<longrightarrow> extract_json rt text = Inr None)
   \<and> (\<exists>r. extract_json rt text = Inr r)"
  by (auto simp: extract_json_def extract_json_try_def match_group_def search_is_span
      brace_span_def first_open_def split: sum.splits option.splits)

theorem extract_json_no_result_witness:
  "brace_span (str ''I cannot compute this.'') = None
   \<and> extract_json ascii_runtime (str ''I cannot compute this.'') = Inr None
   \<and> brace_span (str ''see {oops}'') = Some (str ''{oops}'')
   \<and> json_loads ascii_runtime (str ''{oops}'') = Inl JSONDecodeError
   \<and> extract_json ascii_runtime (str ''see {oops}'') = Inr None"
proof -
  have 1: "brace_span (str ''I cannot compute this.'') = None"
    by (simp add: brace_span_def first_open_def last_close_def str_def)
  have 2: "brace_span (str ''see {oops}'') = Some (str ''{oops}'')"
    by (simp add: brace_span_def first_open_def last_close_def str_def)
  have 3: "json_loads ascii_runtime (str ''{oops}'') = Inl JSONDecodeError"
    by (simp add: ev)
  show ?thesis
    using extract_json_no_result [of "str ''I cannot compute this.''" ascii_runtime]
      extract_json_no_result [of "str ''see {oops}''" ascii_runtime]
    by (simp add: 1 2 3)
qed

text \<open>
  C1, as amended. When a well-formed JSON object stands in a text with no opening brace
  before it and no closing brace after it, the extractor returns the record that decoding
  the object directly gives.
\<close>

theorem extract_json_single_object:
  assumes "is_json_object rt obj" and "123 \<notin> set pre" and "125 \<notin> set post"
  shows "\<exists>d. json_loads rt obj = Inr (JObj d)
           \<and> extract_json rt (pre @ obj @ post) = Inr (Some (JObj d))"
proof -
  from assms(1) obtain v where o: "starts_with [123] obj" and c: "starts_with [125] (rev obj)"
    and v: "json_loads rt obj = Inr v"
    by (auto simp: is_json_object_def split: if_splits sum.splits)
  from o obtain t where t: "obj = 123 # t" by (cases obj) (auto simp: starts_with_def)
  with c have "t \<noteq> []" "last t = 125"
    by (cases "rev t"; auto simp: starts_with_def)+
  then obtain mid where m: "t = mid @ [125]" by (metis append_butlast_last_id)
  from v t obtain d where d: "v = JObj d" using loads_object by blast
  have "match_group rt (pre @ obj @ post) = Some obj"
    using assms(2,3) re_search_span [of pre post rt mid] by (simp add: match_group_def t m)
  with v d show ?thesis by (simp add: extract_json_def extract_json_try_def)
qed

theorem extract_json_single_object_witness:
  \<open>is_json_object ascii_runtime (str ''{"ats_score": 72, "skills_found": ["SQL"]}'')
   \<and> 123 \<notin> set (str ''Here is the result: '') \<and> 125 \<notin> set (str '' Thanks.'')
   \<and> extract_json ascii_runtime
         (str ''Here is the result: '' @ str ''{"ats_score": 72, "skills_found": ["SQL"]}''
          @ str '' Thanks.'')
       = Inr (Some (JObj [(str ''ats_score'', JInt 72),
                          (str ''skills_found'', JArr [JStr (str ''SQL'')])]))\<close>
proof -
  have l: \<open>json_loads ascii_runtime (str ''{"ats_score": 72, "skills_found": ["SQL"]}'')
      = Inr (JObj [(str ''ats_score'', JInt 72),
                   (str ''skills_found'', JArr [JStr (str ''SQL'')])])\<close>
    by (simp add: ev)
  have o: \<open>is_json_object ascii_runtime (str ''{"ats_score": 72, "skills_found": ["SQL"]}'')\<close>
    unfolding is_json_object_def l by (simp add: starts_with_def str_def)
  have p: "123 \<notin> set (str ''Here is the result: '')" by (simp add: str_def)
  have q: "125 \<notin> set (str '' Thanks.'')" by (simp add: str_def)
  show ?thesis
    using extract_json_single_object [OF o p q] o p q by (simp add: l)
qed

text \<open>
  C1 as stated fails. The text below contains exactly one well-formed JSON object, followed
  by prose with braces of its own; the span then runs to the last brace of the prose, the
  decoder refuses it, and the extractor returns \<open>None\<close> instead of the decoded object.
\<close>

theorem extract_json_extra_braces_counterexample:
  \<open>filter (is_json_object ascii_runtime) (substrings (str ''{"a":1} use {x}''))
     = [str ''{"a":1}'']
   \<and> json_loads ascii_runtime (str ''{"a":1}'') = Inr (JObj [(str ''a'', JInt 1)])
   \<and> extract_json ascii_runtime (str ''{"a":1} use {x}'') = Inr None\<close>
proof -
  have a: \<open>json_loads ascii_runtime (str ''{"a":1}'') = Inr (JObj [(str ''a'', JInt 1)])\<close>
    by (simp add: ev)
  have b: \<open>extract_json ascii_runtime (str ''{"a":1} use {x}'') = Inr None\<close>
    by (simp add: ev ev_re)
  have c: \<open>filter (is_json_object ascii_runtime) (substrings (str ''{"a":1} use {x}''))
     = [str ''{"a":1}'']\<close>
    by (simp add: substrings_def is_json_object_def ev upt_rec [of _ "numeral _"] upt_rec [of _ "Suc _"])
  show ?thesis using a b c by simp
qed

subsection \<open>The requests\<close>

lemma or_empty_dict:
  "(\<And>v. r = Some v \<Longrightarrow> \<exists>d. v = JObj d) \<Longrightarrow> \<exists>d. or_empty rt r = JObj d"
  by (cases r) (auto simp: or_empty_def)

lemma extract_or_empty:
  "extract_json rt raw = Inr r \<Longrightarrow> \<exists>d. or_empty rt r = JObj d"
  by (rule or_empty_dict) (auto dest: extract_json_dict)

text \<open>
  C9. The full-analysis and the career-recommendation requests are total: whatever the two
  texts, the remote service and the extractor do, each returns a \<open>dict\<close> (possibly empty),
  never raises and never returns \<open>None\<close>; so \<open>.get\<close> on the result always answers.
\<close>

theorem groq_requests_total:
  "(\<exists>d. groq_full_analysis rt sv resume_text jd_text = Inr (JObj d)
        \<and> (\<forall>k dflt. \<exists>v. py_get (JObj d) k dflt = Inr v))
   \<and> (\<exists>d. groq_career_recommendation rt sv resume_text jd_text = Inr (JObj d)
        \<and> (\<forall>k dflt. \<exists>v. py_get (JObj d) k dflt = Inr v))"
  unfolding groq_full_analysis_def groq_career_recommendation_def Let_def
  by (auto split: sum.splits dest: extract_or_empty)

lemmas ev_ui = with_value_def seq_all_def seq_def say_def for_each_def py_join_def
  rating_def str_of_int_def nat_digits.simps







lemma int_of_str_na: "int_of_str rt (str ''N/A'') = Inl ValueError"
  by (simp add: int_of_str_def int_class_def str_def is_body_char_def)

text \<open>
  C10. The computation of the displayed score is not total: when the field \<open>ats_score\<close> is
  present and is \<open>null\<close> or the string \<open>N/A\<close>, \<open>int\<close> raises (\<open>TypeError\<close>, \<open>ValueError\<close>) before
  anything is clamped, and the handler stops having shown nothing of the analysis.
\<close>

theorem score_not_total:
  "(map_of d (str ''ats_score'') = Some JNull \<longrightarrow>
      score rt (JObj d) = Inl TypeError
      \<and> show_analysis rt sv resume_text jd_text (JObj d) = ([], Some TypeError))
   \<and> (map_of d (str ''ats_score'') = Some (JStr (str ''N/A'')) \<longrightarrow>
      score rt (JObj d) = Inl ValueError
      \<and> show_analysis rt sv resume_text jd_text (JObj d) = ([], Some ValueError))"
  by (simp add: show_analysis_def score_def with_value_def int_of_str_na)

theorem score_not_total_witness:
  \<open>analyze_clicked ascii_runtime (answering (str ''{"ats_score": null}'')) (Some [])
      (str ''Data engineer'') = ([], Some TypeError)
   \<and> analyze_clicked ascii_runtime (answering (str ''{"ats_score": "N/A"}'')) (Some [])
      (str ''Data engineer'') = ([], Some ValueError)\<close>
proof -
  have a: \<open>groq_full_analysis ascii_runtime (answering (str ''{"ats_score": null}'')) []
      (str ''Data engineer'') = Inr (JObj [(str ''ats_score'', JNull)])\<close>
    by (simp add: groq_full_analysis_def safe_groq_call_def answering_def or_empty_def
        ev ev_re)
  have b: \<open>groq_full_analysis ascii_runtime (answering (str ''{"ats_score": "N/A"}'')) []
      (str ''Data engineer'') = Inr (JObj [(str ''ats_score'', JStr (str ''N/A''))])\<close>
    by (simp add: groq_full_analysis_def safe_groq_call_def answering_def or_empty_def
        ev ev_re)
  have s: "py_strip ascii_runtime (str ''Data engineer'') \<noteq> []"
    by (simp add: py_strip_def py_isspace_def str_def)
  have t: "\<And>x. extract_text_from_pdf (answering x) [] = Inr []"
    by (simp add: extract_text_from_pdf_def answering_def)
  show ?thesis
    using score_not_total [of "[(str ''ats_score'', JNull)]" ascii_runtime
        \<open>answering (str ''{"ats_score": null}'')\<close> "[]" "str ''Data engineer''"]
      score_not_total [of "[(str ''ats_score'', JStr (str ''N/A''))]" ascii_runtime
        \<open>answering (str ''{"ats_score": "N/A"}'')\<close> "[]" "str ''Data engineer''"]
    by (simp add: analyze_clicked_def with_value_def a b s t)
qed

subsection \<open>The records on the page and in the report\<close>

















lemma or_default_Some: "or_default d (Some x) = x"
  by (simp add: or_default_def)














subsection \<open>The score on the page and in the report\<close>




end
